theory Spec2Isabelle
  imports Main "HOL-Library.Sublist"
begin

section \<open>Python values and strings\<close>

text \<open>
  The drivers read their settings from a YAML mapping. A value that the code formats
  into text (\<^verbatim>\<open>f"{v}"\<close>, \<^verbatim>\<open>str(v)\<close>) is a scalar: null, a boolean, an integer
  or a string. Floating-point values are not modelled. A Python \<^verbatim>\<open>dict\<close> keeps
  insertion order, so it is an association list.
\<close>

datatype scalar = SNone | SBool bool | SInt int | SStr string

type_synonym ('k, 'v) dict = "('k \<times> 'v) list"

definition digit_char :: "nat \<Rightarrow> char" where
  "digit_char n = ''0123456789'' ! n"

fun str_nat :: "nat \<Rightarrow> string" where
  "str_nat n = (if n < 10 then [digit_char n] else str_nat (n div 10) @ [digit_char (n mod 10)])"

declare str_nat.simps [simp del]

definition str_int :: "int \<Rightarrow> string" where
  "str_int i = (if i < 0 then CHR ''-'' # str_nat (nat (- i)) else str_nat (nat i))"

text \<open>\<^verbatim>\<open>str(v)\<close> of a scalar, which is also what an f-string field renders.\<close>

fun py_str :: "scalar \<Rightarrow> string" where
  "py_str SNone = ''None''"
| "py_str (SBool b) = (if b then ''True'' else ''False'')"
| "py_str (SInt i) = str_int i"
| "py_str (SStr s) = s"

text \<open>\<^verbatim>\<open>sep.join(xs)\<close> on a list of strings.\<close>

fun join :: "string \<Rightarrow> string list \<Rightarrow> string" where
  "join sep [] = []"
| "join sep [x] = x"
| "join sep (x # y # ys) = x @ sep @ join sep (y # ys)"

text \<open>\<^verbatim>\<open>d.get(k, default)\<close> where the key is an optional field of the configuration.\<close>

definition get_default :: "'a option \<Rightarrow> 'a \<Rightarrow> 'a" where
  "get_default v d = (case v of None \<Rightarrow> d | Some x \<Rightarrow> x)"

text \<open>\<^verbatim>\<open>d[k] = v\<close> and \<^verbatim>\<open>d.update(other)\<close>: a key already present keeps its place.\<close>

fun dict_set :: "('k, 'v) dict \<Rightarrow> 'k \<Rightarrow> 'v \<Rightarrow> ('k, 'v) dict" where
  "dict_set [] k v = [(k, v)]"
| "dict_set ((k', v') # d) k v = (if k' = k then (k, v) # d else (k', v') # dict_set d k v)"

definition dict_update :: "('k, 'v) dict \<Rightarrow> ('k, 'v) dict \<Rightarrow> ('k, 'v) dict" where
  "dict_update d other = fold (\<lambda>(k, v) acc. dict_set acc k v) other d"

section \<open>The forecast driver's configuration\<close>

text \<open>
  \<^verbatim>\<open>FV3Forecast\<close> keeps \<^verbatim>\<open>self._config = experiment_config["forecast"]\<close>. The
  configuration is the schema-validated mapping: a key the code indexes with
  \<^verbatim>\<open>[...]\<close> is a field, a key it reads with \<^verbatim>\<open>.get\<close> is an optional field. A
  path is the list of its components.
\<close>

type_synonym path = "string list"

record runtime_info =
  mpi_args :: "scalar list option"
  threads :: "scalar option"

record lbcs_config =
  offset :: int
  interval_hours :: int
  output_file_template :: string

record forecast_config =
  run_dir :: path
  static :: "(string, string) dict"
  cycle_dependent :: "(string, string) dict"
  runtime_info :: runtime_info
  tiles :: "scalar list"
  fcst_length :: int

record experiment_config =
  forecast :: forecast_config
  lateral_boundary_conditions :: lbcs_config

text \<open>
  The driver object: \<^verbatim>\<open>self._experiment_config\<close>, \<^verbatim>\<open>self._dry_run\<close> and
  \<^verbatim>\<open>self._batch_script\<close> (the script's file name, or \<^verbatim>\<open>None\<close> for a direct run).
  The property \<^verbatim>\<open>_config\<close> is the forecast section, shared with the experiment
  configuration.
\<close>

record driver =
  experiment_config :: experiment_config
  dry_run :: bool
  batch_script_name :: "string option"

definition config :: "driver \<Rightarrow> forecast_config" where
  "config self = forecast (experiment_config self)"

subsection \<open>\<^verbatim>\<open>FV3Forecast._mpi_env_variables\<close>\<close>

definition mpi_env_variables :: "driver \<Rightarrow> string \<Rightarrow> string" where
  "mpi_env_variables self delimiter =
     (let envvars =
        [(''KMP_AFFINITY'', SStr ''scatter''),
         (''OMP_NUM_THREADS'', get_default (threads (runtime_info (config self))) (SInt 1)),
         (''OMP_STACKSIZE'', get_default (threads (runtime_info (config self))) (SStr ''512m'')),
         (''MPI_TYPE_DEPTH'', SInt 20),
         (''ESMF_RUNTIME_COMPLIANCECHECK'', SStr ''OFF:depth=4'')]
      in join delimiter (map (\<lambda>(k, v). k @ ''='' @ py_str v) envvars))"

section \<open>Outcomes, the file system and the observable world\<close>

text \<open>
  A call returns, raises an exception, or ends the process: \<^verbatim>\<open>sys.exit(n)\<close> is
  the outcome \<open>Exit n\<close>, which no \<^verbatim>\<open>except Exception\<close> handler intercepts.
\<close>

datatype error =
    ValueError string
  | KeyError string
  | TypeError string
  | AttributeError string
  | FileExistsError path
  | FileNotFoundError path
  | NotADirectoryError path
  | IsADirectoryError path
  | RuntimeError string

datatype 'a outcome = Returned 'a | Raised error | Exit int

text \<open>
  The file system maps a path to what is stored there: a regular file with its bytes,
  or a directory. Symbolic links, permissions and special files are not modelled.
\<close>

datatype node = File string | Dir

type_synonym filesystem = "path \<Rightarrow> node option"

definition path_str :: "path \<Rightarrow> string" where
  "path_str p = join ''/'' p"

text \<open>\<^verbatim>\<open>os.path.isdir\<close>, \<^verbatim>\<open>os.mkdir\<close> and \<^verbatim>\<open>os.makedirs\<close> (with \<^verbatim>\<open>exist_ok=False\<close>).\<close>

definition isdir :: "filesystem \<Rightarrow> path \<Rightarrow> bool" where
  "isdir fs p = (fs p = Some Dir)"

definition mkdir :: "filesystem \<Rightarrow> path \<Rightarrow> unit outcome \<times> filesystem" where
  "mkdir fs p =
     (if fs p \<noteq> None then (Raised (FileExistsError p), fs)
      else case fs (butlast p) of
          None \<Rightarrow> (Raised (FileNotFoundError p), fs)
        | Some Dir \<Rightarrow> (Returned (), fs(p \<mapsto> Dir))
        | Some (File _) \<Rightarrow> (Raised (NotADirectoryError p), fs))"

text \<open>
  \<^verbatim>\<open>os.makedirs(name)\<close> first creates the missing parent (recursively, ignoring a
  \<^verbatim>\<open>FileExistsError\<close> from that call), then the leaf with \<^verbatim>\<open>mkdir\<close>, whose error it
  raises.
\<close>

function makedirs :: "filesystem \<Rightarrow> path \<Rightarrow> unit outcome \<times> filesystem" where
  "makedirs fs name =
     (if butlast name \<noteq> [] \<and> fs (butlast name) = None then
        (case makedirs fs (butlast name) of
           (Returned _, fs1) \<Rightarrow> mkdir fs1 name
         | (Raised (FileExistsError _), fs1) \<Rightarrow> mkdir fs1 name
         | (oc, fs1) \<Rightarrow> (oc, fs1))
      else mkdir fs name)"
  by pat_completeness auto
termination
  by (relation "measure (\<lambda>(fs, name). length name)") (auto intro!: diff_less)

declare makedirs.simps [simp del]

text \<open>
  What a caller can observe of a run: the file system, the commands given to
  \<^verbatim>\<open>subprocess.run\<close>, the scripts handed to the scheduler, and the log records.
  A log record keeps the values it formats.
\<close>

datatype logentry =
    Info string
  | InfoScript "string list"
  | InfoRuntime "scalar list" runtime_info
  | Critical string

record world =
  filesys :: filesystem
  spawned :: "string list"
  submitted :: "path list"
  log :: "logentry list"

section \<open>Run directory provisioning\<close>

text \<open>Removing a tree, and moving a tree to another name.\<close>

definition rmtree :: "filesystem \<Rightarrow> path \<Rightarrow> filesystem" where
  "rmtree fs p = (\<lambda>q. if prefix p q then None else fs q)"

definition move :: "filesystem \<Rightarrow> path \<Rightarrow> path \<Rightarrow> filesystem" where
  "move fs src dst =
     (\<lambda>q. if prefix dst q then fs (src @ drop (length dst) q)
          else if prefix src q then None else fs q)"

text \<open>
  Modelled from the spec: \<^verbatim>\<open>handle_existing\<close> of \<^verbatim>\<open>uwtools.utils.file\<close> is not
  under src/. Spec 4.3: under \<^verbatim>\<open>delete\<close>, if the path exists it is removed entirely
  (recursively); under \<^verbatim>\<open>rename\<close>, if the path exists it is moved aside to a sibling
  name with a deterministic suffix (a timestamp), its contents preserved. The suffix
  is a parameter.
\<close>

definition handle_existing ::
  "string \<Rightarrow> filesystem \<Rightarrow> path \<Rightarrow> string \<Rightarrow> unit outcome \<times> filesystem" where
  "handle_existing sfx fs directory exist_act =
     (if exist_act = ''delete'' \<and> fs directory \<noteq> None then
        (Returned (), rmtree fs directory)
      else if exist_act = ''rename'' \<and> fs directory \<noteq> None then
        (Returned (), move fs directory (butlast directory @ [last directory @ sfx]))
      else (Returned (), fs))"

subsection \<open>\<^verbatim>\<open>FV3Forecast.create_directory_structure\<close>\<close>

text \<open>
  The loop over \<^verbatim>\<open>("INPUT", "RESTART")\<close>: log, then \<^verbatim>\<open>os.makedirs\<close>; an error of
  \<^verbatim>\<open>makedirs\<close> ends the loop and is raised.
\<close>

fun create_subdirs :: "string list \<Rightarrow> path \<Rightarrow> world \<Rightarrow> unit outcome \<times> world" where
  "create_subdirs [] run_directory w = (Returned (), w)"
| "create_subdirs (subdir # rest) run_directory w =
     (let p = run_directory @ [subdir];
          w1 = w\<lparr>log := log w @ [Info (''Creating directory: '' @ path_str p)]\<rparr>
      in case makedirs (filesys w1) p of
           (Returned _, fs2) \<Rightarrow> create_subdirs rest run_directory (w1\<lparr>filesys := fs2\<rparr>)
         | (oc, fs2) \<Rightarrow> (oc, w1\<lparr>filesys := fs2\<rparr>))"

text \<open>
  The first parameter is the \<^verbatim>\<open>handle_existing\<close> the method calls (not under src/).
\<close>

definition create_directory_structure ::
  "(filesystem \<Rightarrow> path \<Rightarrow> string \<Rightarrow> unit outcome \<times> filesystem) \<Rightarrow>
   path \<Rightarrow> string \<Rightarrow> world \<Rightarrow> unit outcome \<times> world" where
  "create_directory_structure handle_existing_fn run_directory exist_act w =
     (if exist_act \<notin> set [''delete'', ''rename'', ''quit''] then
        (Raised (ValueError (''Bad argument: '' @ exist_act)), w)
      else if exist_act = ''quit'' \<and> isdir (filesys w) run_directory then
        (Exit 1, w\<lparr>log := log w @ [Critical ''User chose quit option when creating directory'']\<rparr>)
      else case handle_existing_fn (filesys w) run_directory exist_act of
          (Returned _, fs1) \<Rightarrow> create_subdirs [''INPUT'', ''RESTART''] run_directory (w\<lparr>filesys := fs1\<rparr>)
        | (oc, fs1) \<Rightarrow> (oc, w\<lparr>filesys := fs1\<rparr>))"

section \<open>The forecast driver's run\<close>

text \<open>
  What \<^verbatim>\<open>FV3Forecast\<close> calls and src/ does not hold: \<^verbatim>\<open>handle_existing\<close>, the base
  driver's \<^verbatim>\<open>stage_files\<close> and \<^verbatim>\<open>run_cmd\<close>, the scheduler's initial batch script
  and its \<^verbatim>\<open>run_job\<close>, \<^verbatim>\<open>BatchScript.dump\<close>; and from Python, \<^verbatim>\<open>str.format\<close> on the
  boundary file template and the process that \<^verbatim>\<open>subprocess.run\<close> starts (its exit
  status and what it does to the files). They are parameters. The file utilities act
  on the file system only; \<^verbatim>\<open>run_cmd\<close> and the scheduler read the configuration,
  and may raise.
\<close>

record collab =
  handle_existing_fn :: "filesystem \<Rightarrow> path \<Rightarrow> string \<Rightarrow> unit outcome \<times> filesystem"
  stage_files :: "filesystem \<Rightarrow> path \<Rightarrow> (string, string) dict \<Rightarrow> bool \<Rightarrow> unit outcome \<times> filesystem"
  run_cmd :: "experiment_config \<Rightarrow> scalar list \<Rightarrow> error + string"
  scheduler_batch_script :: "experiment_config \<Rightarrow> error + string list"
  dump :: "string list \<Rightarrow> path \<Rightarrow> filesystem \<Rightarrow> unit outcome \<times> filesystem"
  run_job :: "path \<Rightarrow> filesystem \<Rightarrow> unit outcome \<times> filesystem"
  str_format :: "string \<Rightarrow> scalar \<Rightarrow> int \<Rightarrow> error + string"
  subprocess_run :: "string \<Rightarrow> filesystem \<Rightarrow> int \<times> filesystem"

definition on_filesys ::
  "(filesystem \<Rightarrow> 'a outcome \<times> filesystem) \<Rightarrow> world \<Rightarrow> 'a outcome \<times> world" where
  "on_filesys f w = (case f (filesys w) of (oc, fs') \<Rightarrow> (oc, w\<lparr>filesys := fs'\<rparr>))"

subsection \<open>\<^verbatim>\<open>FV3Forecast.batch_script\<close>\<close>

text \<open>A batch script is its sequence of lines; \<^verbatim>\<open>append\<close> adds one at the end.\<close>

definition batch_script :: "collab \<Rightarrow> driver \<Rightarrow> error + string list" where
  "batch_script c self =
     (let pre_run = mpi_env_variables self [CHR 0x0A];
          run_time_args = get_default (mpi_args (runtime_info (config self))) []
      in case scheduler_batch_script c (experiment_config self) of
           Inl e \<Rightarrow> Inl e
         | Inr bs \<Rightarrow>
             let bs = bs @ [pre_run] in
             (case run_cmd c (experiment_config self) run_time_args of
                Inl e \<Rightarrow> Inl e
              | Inr cmd \<Rightarrow> Inr (bs @ [cmd])))"

subsection \<open>\<^verbatim>\<open>FV3Forecast._boundary_hours\<close> and \<^verbatim>\<open>_define_boundary_files\<close>\<close>

text \<open>\<^verbatim>\<open>range(start, stop, step)\<close>, which raises on a zero step.\<close>

definition py_range :: "int \<Rightarrow> int \<Rightarrow> int \<Rightarrow> error + int list" where
  "py_range start stop step =
     (if step = 0 then Inl (ValueError ''range() arg 3 must not be zero'')
      else if 0 < step then
        Inr (map (\<lambda>i. start + int i * step) [0 ..< nat ((stop - start + step - 1) div step)])
      else
        Inr (map (\<lambda>i. start + int i * step) [0 ..< nat ((start - stop - step - 1) div (- step))]))"

definition boundary_hours :: "driver \<Rightarrow> lbcs_config \<Rightarrow> int \<times> int \<times> int" where
  "boundary_hours self lbcs_config =
     (let offset = \<bar>offset lbcs_config\<bar>;
          end_hour = fcst_length (config self) + offset + 1
      in (offset, interval_hours lbcs_config, end_hour))"

text \<open>The inner loop over the boundary hours of one tile.\<close>

fun boundary_files_of_tile ::
  "collab \<Rightarrow> string \<Rightarrow> int \<Rightarrow> scalar \<Rightarrow> int list \<Rightarrow> (string, string) dict \<Rightarrow>
   error + (string, string) dict" where
  "boundary_files_of_tile c template off tile [] boundary_files = Inr boundary_files"
| "boundary_files_of_tile c template off tile (boundary_hour # hours) boundary_files =
     (let forecast_hour = boundary_hour - off;
          link_name = ''gfs_bndy.tile'' @ py_str tile @ ''.'' @ str_int forecast_hour @ ''.nc''
      in case str_format c template tile boundary_hour of
           Inl e \<Rightarrow> Inl e
         | Inr boundary_file_path \<Rightarrow>
             boundary_files_of_tile c template off tile hours
               (dict_set boundary_files link_name boundary_file_path))"

text \<open>The outer loop over the tiles; the range is evaluated once per tile.\<close>

fun boundary_files_of_tiles ::
  "collab \<Rightarrow> string \<Rightarrow> int \<times> int \<times> int \<Rightarrow> scalar list \<Rightarrow> (string, string) dict \<Rightarrow>
   error + (string, string) dict" where
  "boundary_files_of_tiles c template hrs [] boundary_files = Inr boundary_files"
| "boundary_files_of_tiles c template (off, interval, endhour) (tile # rest) boundary_files =
     (case py_range off endhour interval of
        Inl e \<Rightarrow> Inl e
      | Inr hours \<Rightarrow>
          (case boundary_files_of_tile c template off tile hours boundary_files of
             Inl e \<Rightarrow> Inl e
           | Inr boundary_files' \<Rightarrow>
               boundary_files_of_tiles c template (off, interval, endhour) rest boundary_files'))"

definition define_boundary_files :: "collab \<Rightarrow> driver \<Rightarrow> error + (string, string) dict" where
  "define_boundary_files c self =
     (let lbcs_config = lateral_boundary_conditions (experiment_config self);
          boudary_file_template = output_file_template lbcs_config
      in boundary_files_of_tiles c boudary_file_template (boundary_hours self lbcs_config)
           (tiles (config self)) [])"

subsection \<open>\<^verbatim>\<open>FV3Forecast.run\<close>\<close>

text \<open>\<^verbatim>\<open>self._config[file_category]\<close> for the two categories the loop names.\<close>

definition config_files :: "forecast_config \<Rightarrow> string \<Rightarrow> (string, string) dict" where
  "config_files cfg file_category =
     (if file_category = ''static'' then static cfg else cycle_dependent cfg)"

fun stage_categories ::
  "collab \<Rightarrow> driver \<Rightarrow> path \<Rightarrow> string list \<Rightarrow> world \<Rightarrow> unit outcome \<times> world" where
  "stage_categories c self run_directory [] w = (Returned (), w)"
| "stage_categories c self run_directory (file_category # rest) w =
     (case on_filesys (\<lambda>f. stage_files c f run_directory
                              (config_files (config self) file_category) True) w of
        (Returned _, w1) \<Rightarrow> stage_categories c self run_directory rest w1
      | (oc, w1) \<Rightarrow> (oc, w1))"

text \<open>\<^verbatim>\<open>self._config["cycle-dependent"].update(...)\<close>, in place.\<close>

definition update_cycle_dependent :: "driver \<Rightarrow> (string, string) dict \<Rightarrow> driver" where
  "update_cycle_dependent self other =
     self\<lparr>experiment_config := (experiment_config self)
       \<lparr>forecast := (config self)
          \<lparr>cycle_dependent := dict_update (cycle_dependent (config self)) other\<rparr>\<rparr>\<rparr>"

text \<open>
  \<^verbatim>\<open>run\<close> returns \<^verbatim>\<open>None\<close> on every path; the result holds the outcome, the driver
  (whose configuration \<^verbatim>\<open>run\<close> updates) and the world. The value that
  \<^verbatim>\<open>subprocess.run\<close> returns is not bound to anything.
\<close>

definition run :: "collab \<Rightarrow> driver \<Rightarrow> world \<Rightarrow> unit outcome \<times> driver \<times> world" where
  "run c self w =
     (let run_directory = run_dir (config self) in
      case create_directory_structure (handle_existing_fn c) run_directory ''delete'' w of
        (Returned _, w1) \<Rightarrow>
          (case define_boundary_files c self of
             Inl e \<Rightarrow> (Raised e, self, w1)
           | Inr boundary_files \<Rightarrow>
               let self1 = update_cycle_dependent self boundary_files in
               (case stage_categories c self1 run_directory [''static'', ''cycle-dependent''] w1 of
                  (Returned _, w2) \<Rightarrow>
                    let run_time_args = get_default (mpi_args (runtime_info (config self1))) [] in
                    (case batch_script_name self1 of
                       Some name \<Rightarrow>
                         (case batch_script c self1 of
                            Inl e \<Rightarrow> (Raised e, self1, w2)
                          | Inr script \<Rightarrow>
                              if dry_run self1 then
                                (Returned (), self1,
                                 w2\<lparr>log := log w2 @
                                    [Info ''Batch Script:'', InfoScript script]\<rparr>)
                              else
                                let outpath = run_directory @ [name] in
                                (case on_filesys (dump c script outpath) w2 of
                                   (Returned _, w3) \<Rightarrow>
                                     (case on_filesys (run_job c outpath)
                                             (w3\<lparr>submitted := submitted w3 @ [outpath]\<rparr>) of
                                        (oc, w4) \<Rightarrow> (oc, self1, w4))
                                 | (oc, w3) \<Rightarrow> (oc, self1, w3)))
                     | None \<Rightarrow>
                         let w3 = w2\<lparr>log := log w2 @
                                    [InfoRuntime run_time_args (runtime_info (config self1))]\<rparr> in
                         if dry_run self1 then
                           let w4 = w3\<lparr>log := log w3 @ [Info ''Would run: '']\<rparr> in
                           (case run_cmd c (experiment_config self1) run_time_args of
                              Inl e \<Rightarrow> (Raised e, self1, w4)
                            | Inr cmd \<Rightarrow> (Returned (), self1, w4\<lparr>log := log w4 @ [Info cmd]\<rparr>))
                         else
                           (case run_cmd c (experiment_config self1) run_time_args of
                              Inl e \<Rightarrow> (Raised e, self1, w3)
                            | Inr cmd \<Rightarrow>
                                (case subprocess_run c cmd (filesys w3) of
                                   (returncode, fs4) \<Rightarrow>
                                     (Returned (), self1,
                                      w3\<lparr>filesys := fs4, spawned := spawned w3 @ [cmd]\<rparr>))))
                | (oc, w2) \<Rightarrow> (oc, self1, w2)))
      | (oc, w1) \<Rightarrow> (oc, self, w1))"

section \<open>The orog driver\<close>

subsection \<open>\<^verbatim>\<open>pathlib\<close> paths\<close>

text \<open>
  \<^verbatim>\<open>Path(s)\<close> on POSIX keeps a root (\<^verbatim>\<open>/\<close>, or \<^verbatim>\<open>//\<close> for exactly two leading
  slashes) and the components between slashes, dropping empty components and single
  dots. \<^verbatim>\<open>str\<close> joins them again; the empty path is \<^verbatim>\<open>.\<close>
\<close>

record ppath =
  root :: string
  tail :: "string list"

fun split_sep :: "char \<Rightarrow> string \<Rightarrow> string list" where
  "split_sep c [] = [[]]"
| "split_sep c (x # xs) =
     (if x = c then [] # split_sep c xs
      else (case split_sep c xs of [] \<Rightarrow> [[x]] | w # ws \<Rightarrow> (x # w) # ws))"

definition Path :: "string \<Rightarrow> ppath" where
  "Path s =
     \<lparr>root = (if take 2 s = ''//'' \<and> take 3 s \<noteq> ''///'' then ''//''
              else if take 1 s = ''/'' then ''/'' else []),
      tail = filter (\<lambda>x. x \<noteq> [] \<and> x \<noteq> ''.'') (split_sep CHR ''/'' s)\<rparr>"

definition str_path :: "ppath \<Rightarrow> string" where
  "str_path p = (if root p = [] \<and> tail p = [] then ''.'' else root p @ join ''/'' (tail p))"

text \<open>\<^verbatim>\<open>p / s\<close>: an absolute right operand replaces the left one.\<close>

definition joinpath :: "ppath \<Rightarrow> string \<Rightarrow> ppath" where
  "joinpath p s = (if root (Path s) \<noteq> [] then Path s else p\<lparr>tail := tail p @ tail (Path s)\<rparr>)"

text \<open>
  Where a \<^verbatim>\<open>Path\<close> lies in the file system (an absolute path starts with its root),
  and \<^verbatim>\<open>Path.is_file\<close>.
\<close>

definition fs_key :: "ppath \<Rightarrow> path" where
  "fs_key p = (if root p = [] then tail p else root p # tail p)"

definition is_file :: "filesystem \<Rightarrow> ppath \<Rightarrow> bool" where
  "is_file fs p = (case fs (fs_key p) of Some (File _) \<Rightarrow> True | _ \<Rightarrow> False)"

subsection \<open>Configuration, assets and tasks\<close>

text \<open>
  The keys of \<^verbatim>\<open>self.config\<close> that the tasks below read. \<^verbatim>\<open>grid_file\<close> is indexed
  and passed to \<^verbatim>\<open>Path\<close>, so it is a string; the others are read with \<^verbatim>\<open>.get\<close>.
  \<^verbatim>\<open>old_line1_items\<close> is a mapping when present (a null value reads as absent).
\<close>

record orog_cfg =
  cfg_grid_file :: string
  old_line1_items :: "(string, scalar) dict option"
  orog_file :: "scalar option"
  mask :: "scalar option"
  merge :: "scalar option"

text \<open>
  The driver object: its configuration, its run directory, and the base driver's
  \<^verbatim>\<open>taskname\<close> (not under src/), which makes a task's name from a suffix.
\<close>

record orog =
  orog_config :: orog_cfg
  rundir :: ppath
  taskname :: "string \<Rightarrow> string"

text \<open>
  \<^verbatim>\<open>iotaa.asset(ref, ready)\<close>, and what a task function yields: its name, its asset,
  the tasks it requires (each the pair an external task yields), and the code after
  the last \<^verbatim>\<open>yield\<close>, which the engine runs to make the asset ready.
\<close>

record asset =
  ref :: ppath
  ready :: "filesystem \<Rightarrow> bool"

record task =
  task_name :: string
  task_asset :: asset
  task_requires :: "(string \<times> asset option) list"
  task_action :: "filesystem \<Rightarrow> unit outcome \<times> filesystem"

subsection \<open>\<^verbatim>\<open>Orog.grid_file\<close>\<close>

definition grid_file :: "orog \<Rightarrow> string \<times> asset option" where
  "grid_file self =
     (let grid_file = Path (cfg_grid_file (orog_config self))
      in (taskname self ''Input grid file'',
          if str_path grid_file \<noteq> ''none''
          then Some \<lparr>ref = grid_file, ready = (\<lambda>fs. is_file fs grid_file)\<rparr>
          else None))"

subsection \<open>\<^verbatim>\<open>Orog.input_config_file\<close>\<close>

text \<open>
  The items of \<^verbatim>\<open>content\<close> are Python values: scalars, or the mapping itself when
  \<^verbatim>\<open>old_line1_items\<close> is empty. \<^verbatim>\<open>"\n".join\<close> raises \<^verbatim>\<open>TypeError\<close> at the first
  item that is not a string.
\<close>

datatype pyval = Scalar scalar | Dict "(string, scalar) dict"

fun type_name :: "pyval \<Rightarrow> string" where
  "type_name (Scalar SNone) = ''NoneType''"
| "type_name (Scalar (SBool b)) = ''bool''"
| "type_name (Scalar (SInt i)) = ''int''"
| "type_name (Scalar (SStr s)) = ''str''"
| "type_name (Dict d) = ''dict''"

fun str_items :: "nat \<Rightarrow> pyval list \<Rightarrow> error + string list" where
  "str_items i [] = Inr []"
| "str_items i (Scalar (SStr s) # items) =
     (case str_items (Suc i) items of Inl e \<Rightarrow> Inl e | Inr ss \<Rightarrow> Inr (s # ss))"
| "str_items i (v # items) =
     Inl (TypeError (''sequence item '' @ str_nat i @ '': expected str instance, '' @
                     type_name v @ '' found''))"

definition py_join :: "string \<Rightarrow> pyval list \<Rightarrow> error + string" where
  "py_join sep items = (case str_items 0 items of Inl e \<Rightarrow> Inl e | Inr ss \<Rightarrow> Inr (join sep ss))"

text \<open>\<^verbatim>\<open>[str(inputs[i]) for i in ordered_entries]\<close>: a missing key raises \<^verbatim>\<open>KeyError\<close>.\<close>

fun entries_str :: "(string, scalar) dict \<Rightarrow> string list \<Rightarrow> error + string list" where
  "entries_str inputs [] = Inr []"
| "entries_str inputs (i # rest) =
     (case map_of inputs i of
        None \<Rightarrow> Inl (KeyError i)
      | Some v \<Rightarrow>
          (case entries_str inputs rest of Inl e \<Rightarrow> Inl e | Inr ss \<Rightarrow> Inr (py_str v # ss)))"

definition ordered_entries :: "string list" where
  "ordered_entries =
     [''mtnres'', ''lonb'', ''latb'', ''jcap'', ''nr'', ''nf1'', ''nf2'', ''efac'', ''blat'']"

definition input_config_path :: "orog \<Rightarrow> ppath" where
  "input_config_path self = joinpath (rundir self) ''INPS''"

text \<open>
  The lines of \<^verbatim>\<open>input_config_file\<close> after its last \<^verbatim>\<open>yield\<close>. The context manager
  \<^verbatim>\<open>writable\<close> (\<^verbatim>\<open>uwtools.utils.file\<close>, not under src/) is the first parameter: it
  is given the file system, the path, and what its block computes for \<^verbatim>\<open>f.write\<close>,
  the text or the error raised inside the block.
\<close>

definition input_config_file_body ::
  "(filesystem \<Rightarrow> ppath \<Rightarrow> error + string \<Rightarrow> unit outcome \<times> filesystem) \<Rightarrow>
   orog \<Rightarrow> filesystem \<Rightarrow> unit outcome \<times> filesystem" where
  "input_config_file_body writable self fs =
     (let path = input_config_path self;
          cfg = orog_config self
      in case (case old_line1_items cfg of
                 None \<Rightarrow> Inr (Scalar SNone)
               | Some inputs \<Rightarrow>
                   if inputs \<noteq> [] then
                     (case entries_str inputs ordered_entries of
                        Inl e \<Rightarrow> Inl e
                      | Inr ss \<Rightarrow> Inr (Scalar (SStr (join '' '' ss))))
                   else Inr (Dict inputs)) of
           Inl e \<Rightarrow> (Raised e, fs)
         | Inr inputs \<Rightarrow>
             let outgrid = Scalar (SStr (cfg_grid_file cfg));
                 orogfile = Scalar (get_default (orog_file cfg) SNone);
                 mask_only = Scalar (get_default (mask cfg) (SStr ''.false.''));
                 merge_file = Scalar (get_default (merge cfg) (SStr ''none''));
                 content = filter (\<lambda>i. i \<noteq> Scalar SNone)
                             [inputs, outgrid, orogfile, mask_only, merge_file]
             in writable fs path (py_join [CHR 0x0A] content))"

definition input_config_file ::
  "(filesystem \<Rightarrow> ppath \<Rightarrow> error + string \<Rightarrow> unit outcome \<times> filesystem) \<Rightarrow> orog \<Rightarrow> task" where
  "input_config_file writable self =
     (let path = input_config_path self
      in \<lparr>task_name = taskname self (str_path path),
          task_asset = \<lparr>ref = path, ready = (\<lambda>fs. is_file fs path)\<rparr>,
          task_requires = [grid_file self],
          task_action = input_config_file_body writable self\<rparr>)"

section \<open>The API entry point \<^verbatim>\<open>execute\<close>\<close>

text \<open>
  \<^verbatim>\<open>getattr(obj, task)()\<close> looks the name up among all attributes of the driver object
  and calls what it finds with no argument. An attribute is a task method, or something
  else that can be called without arguments (every Python object has \<^verbatim>\<open>__repr__\<close>), or
  something that cannot (a plain value, a method that needs arguments). A call acts on
  a world \<open>'w\<close> of whatever tasks can change; what it returns is dropped.
\<close>

datatype 'w attribute =
    Task "'w \<Rightarrow> unit outcome \<times> 'w"
  | Callable "'w \<Rightarrow> unit outcome \<times> 'w"
  | NotCallable

type_synonym 'w pyobject = "string \<Rightarrow> 'w attribute option"

fun is_task :: "'w attribute option \<Rightarrow> bool" where
  "is_task (Some (Task f)) = True"
| "is_task a = False"

text \<open>
  What \<^verbatim>\<open>execute\<close> uses and src/ does not hold: the constructor of the driver class
  \<^verbatim>\<open>ChgresCube\<close> (which reads the configuration and may raise), \<^verbatim>\<open>iotaa.graph\<close>, and
  the writing of a text to a file opened with \<^verbatim>\<open>open(graph_file, "w")\<close>. The cycle is
  of any type \<open>'c\<close>.
\<close>

record ('c, 'w) api =
  ChgresCube :: "path option \<Rightarrow> 'c \<Rightarrow> bool \<Rightarrow> bool \<Rightarrow> 'w \<Rightarrow> error + 'w pyobject"
  graph :: "'w \<Rightarrow> string"
  write_to :: "path \<Rightarrow> string \<Rightarrow> 'w \<Rightarrow> unit outcome \<times> 'w"

text \<open>
  The lines after the call: \<^verbatim>\<open>if graph_file:\<close> write \<^verbatim>\<open>graph()\<close> and a newline (what
  \<^verbatim>\<open>print\<close> writes) there; then \<^verbatim>\<open>return True\<close>.
\<close>

definition write_graph_and_return ::
  "('c, 'w) api \<Rightarrow> path option \<Rightarrow> unit outcome \<times> 'w \<Rightarrow> bool outcome \<times> 'w" where
  "write_graph_and_return env graph_file r =
     (case r of
        (Raised e, w1) \<Rightarrow> (Raised e, w1)
      | (Exit n, w1) \<Rightarrow> (Exit n, w1)
      | (Returned _, w1) \<Rightarrow>
          (case graph_file of
             None \<Rightarrow> (Returned True, w1)
           | Some p \<Rightarrow>
               (case write_to env p (graph env w1 @ [CHR 0x0A]) w1 of
                  (Returned _, w2) \<Rightarrow> (Returned True, w2)
                | (Raised e, w2) \<Rightarrow> (Raised e, w2)
                | (Exit n, w2) \<Rightarrow> (Exit n, w2))))"

definition execute ::
  "('c, 'w) api \<Rightarrow> string \<Rightarrow> 'c \<Rightarrow> path option \<Rightarrow> bool \<Rightarrow> bool \<Rightarrow> path option \<Rightarrow> 'w \<Rightarrow>
   bool outcome \<times> 'w" where
  "execute env task cycle cfg batch dry graph_file w =
     (case ChgresCube env cfg cycle batch dry w of
        Inl e \<Rightarrow> (Raised e, w)
      | Inr obj \<Rightarrow>
          (case obj task of
             None \<Rightarrow> (Raised (AttributeError task), w)
           | Some NotCallable \<Rightarrow> (Raised (TypeError task), w)
           | Some (Task f) \<Rightarrow> write_graph_and_return env graph_file (f w)
           | Some (Callable f) \<Rightarrow> write_graph_and_return env graph_file (f w)))"

section \<open>Concrete inputs\<close>

text \<open>
  A world whose run directory \<^verbatim>\<open>run\<close> exists and holds a file, and one without
  a run directory, for evaluating the operations on concrete input.
\<close>

definition example_world :: world where
  "example_world =
     \<lparr>filesys = Map.empty([] \<mapsto> Dir, [''run''] \<mapsto> Dir, [''run'', ''old.nc''] \<mapsto> File ''data''),
      spawned = [], submitted = [], log = []\<rparr>"

definition fresh_world :: world where
  "fresh_world = \<lparr>filesys = Map.empty([] \<mapsto> Dir), spawned = [], submitted = [], log = []\<rparr>"

text \<open>A process that leaves the files alone and exits with the given status.\<close>

definition exits_with :: "int \<Rightarrow> string \<Rightarrow> filesystem \<Rightarrow> int \<times> filesystem" where
  "exits_with returncode cmd f = (returncode, f)"

text \<open>
  Collaborators and a driver for the examples. The example configuration has no files
  to stage (empty static and cycle-dependent maps, no tiles), so its staging leaves
  the files as they are; \<^verbatim>\<open>handle_existing\<close> is the one modelled above; the model
  executable of the example exits with status 1.
\<close>

definition example_collab :: collab where
  "example_collab =
     \<lparr>handle_existing_fn = handle_existing ''_old'',
      stage_files = (\<lambda>f rd files link_files. (Returned (), f)),
      run_cmd = (\<lambda>cfg args. Inr (join '' '' ([''srun''] @ map py_str args @ [''fv3.exe'']))),
      scheduler_batch_script = (\<lambda>cfg. Inr [''#!/bin/bash'', ''#SBATCH --account=me'']),
      dump = (\<lambda>lines p f. (Returned (), f(p \<mapsto> File (join [CHR 0x0A] lines)))),
      run_job = (\<lambda>p f. (Returned (), f)),
      str_format = (\<lambda>template tile hour. Inr template),
      subprocess_run = exits_with 1\<rparr>"

definition example_driver :: driver where
  "example_driver =
     \<lparr>experiment_config =
        \<lparr>forecast =
           \<lparr>run_dir = [''run''], static = [], cycle_dependent = [],
            runtime_info = \<lparr>mpi_args = Some [SStr ''-n'', SInt 4], threads = None\<rparr>,
            tiles = [], fcst_length = 6\<rparr>,
         lateral_boundary_conditions =
           \<lparr>offset = 0, interval_hours = 3, output_file_template = ''gfs_bndy.nc''\<rparr>\<rparr>,
      dry_run = False,
      batch_script_name = None\<rparr>"

text \<open>
  An orog driver for the examples, and a \<^verbatim>\<open>writable\<close> that stores the text at the
  path (and raises what its block raised, leaving an empty file).
\<close>

definition example_writable ::
  "filesystem \<Rightarrow> ppath \<Rightarrow> error + string \<Rightarrow> unit outcome \<times> filesystem" where
  "example_writable fs p text =
     (case text of
        Inl e \<Rightarrow> (Raised e, fs(fs_key p \<mapsto> File []))
      | Inr t \<Rightarrow> (Returned (), fs(fs_key p \<mapsto> File t)))"

definition example_orog :: orog where
  "example_orog =
     \<lparr>orog_config =
        \<lparr>cfg_grid_file = ''/data/grid.nc'',
         old_line1_items = Some
           [(''blat'', SInt 0), (''efac'', SInt 0), (''jcap'', SInt 0), (''latb'', SInt 0),
            (''lonb'', SInt 0), (''mtnres'', SInt 1), (''nf1'', SInt 0), (''nf2'', SInt 0),
            (''nr'', SInt 0)],
         orog_file = Some (SStr ''orog.nc''),
         mask = None,
         merge = None\<rparr>,
      rundir = Path ''run'',
      taskname = (\<lambda>suffix. ''orog '' @ suffix)\<rparr>"

text \<open>
  A driver object for the examples: one task, which creates the run directory; the
  method \<^verbatim>\<open>__repr__\<close>, which changes nothing; and the plain attribute \<^verbatim>\<open>rundir\<close>.
\<close>

definition example_task :: "world \<Rightarrow> unit outcome \<times> world" where
  "example_task w = on_filesys (\<lambda>f. makedirs f [''run'']) w"

definition unchanged :: "world \<Rightarrow> unit outcome \<times> world" where
  "unchanged w = (Returned (), w)"

definition example_object :: "world pyobject" where
  "example_object name =
     (if name = ''provisioned_rundir'' then Some (Task example_task)
      else if name = ''__repr__'' then Some (Callable unchanged)
      else if name = ''rundir'' then Some NotCallable
      else None)"

definition example_constructor ::
  "path option \<Rightarrow> int \<Rightarrow> bool \<Rightarrow> bool \<Rightarrow> world \<Rightarrow> error + world pyobject" where
  "example_constructor cfg cycle batch dry w = Inr example_object"

definition example_graph :: "world \<Rightarrow> string" where
  "example_graph w = ''digraph g {}''"

definition example_write_to :: "path \<Rightarrow> string \<Rightarrow> world \<Rightarrow> unit outcome \<times> world" where
  "example_write_to p text w = (Returned (), w\<lparr>filesys := (filesys w)(p \<mapsto> File text)\<rparr>)"

definition example_api :: "(int, world) api" where
  "example_api =
     \<lparr>ChgresCube = example_constructor, graph = example_graph, write_to = example_write_to\<rparr>"

section \<open>Theorems\<close>

subsection \<open>The environment export string\<close>

lemma str_int_20: "str_int 20 = ''20''"
  by (simp add: str_int_def str_nat.simps digit_char_def)

text \<open>
  C9. The export string of \<^verbatim>\<open>_mpi_env_variables\<close> is the five pairs
  KMP_AFFINITY=scatter, OMP_NUM_THREADS, OMP_STACKSIZE, MPI_TYPE_DEPTH=20 and
  ESMF_RUNTIME_COMPLIANCECHECK=OFF:depth=4, in that order, joined by the delimiter;
  OMP_NUM_THREADS and OMP_STACKSIZE both render the \<^verbatim>\<open>threads\<close> key of
  \<^verbatim>\<open>runtime_info\<close>, with the defaults 1 and 512m when the key is absent.
\<close>

theorem mpi_env_variables_string:
  "mpi_env_variables self d =
     ''KMP_AFFINITY=scatter'' @ d @
     ''OMP_NUM_THREADS='' @
       py_str (case threads (runtime_info (config self)) of None \<Rightarrow> SInt 1 | Some v \<Rightarrow> v) @ d @
     ''OMP_STACKSIZE='' @
       py_str (case threads (runtime_info (config self)) of None \<Rightarrow> SStr ''512m'' | Some v \<Rightarrow> v) @ d @
     ''MPI_TYPE_DEPTH=20'' @ d @
     ''ESMF_RUNTIME_COMPLIANCECHECK=OFF:depth=4''"
  by (simp add: mpi_env_variables_def get_default_def str_int_20)

subsection \<open>Directories\<close>

lemma mkdir_Returned:
  "mkdir fs p = (Returned u, fs') \<Longrightarrow> fs' = fs(p \<mapsto> Dir)"
  by (auto simp: mkdir_def split: if_splits option.splits node.splits)

lemma mkdir_filesys_mono:
  "mkdir fs p = (oc, fs') \<Longrightarrow> fs q = Some n \<Longrightarrow> fs' q = Some n"
  by (auto simp: mkdir_def split: if_splits option.splits node.splits)

lemma makedirs_mono:
  "makedirs fs p = (oc, fs') \<Longrightarrow> fs q = Some n \<Longrightarrow> fs' q = Some n"
proof (induction fs p arbitrary: oc fs' rule: makedirs.induct)
  case (1 fs name)
  show ?case
  proof (cases "butlast name \<noteq> [] \<and> fs (butlast name) = None")
    case True
    obtain oc1 fs1 where r: "makedirs fs (butlast name) = (oc1, fs1)" by force
    from "1.IH"[OF True r "1.prems"(2)] have m: "fs1 q = Some n" .
    from "1.prems"(1) True r have "mkdir fs1 name = (oc, fs') \<or> fs' = fs1"
      by (subst (asm) makedirs.simps) (auto split: outcome.splits error.splits)
    with m show ?thesis
      by (auto dest: mkdir_filesys_mono)
  next
    case False
    with "1.prems" show ?thesis
      by (subst (asm) makedirs.simps) (auto dest: mkdir_filesys_mono)
  qed
qed

lemma makedirs_Returned:
  "makedirs fs p = (Returned u, fs') \<Longrightarrow> fs' p = Some Dir"
  by (subst (asm) makedirs.simps)
     (auto split: if_splits prod.splits outcome.splits error.splits dest!: mkdir_Returned)

lemma makedirs_parent_dir:
  "fs (butlast p) = Some Dir \<Longrightarrow> fs p = None \<Longrightarrow> makedirs fs p = (Returned (), fs(p \<mapsto> Dir))"
  by (subst makedirs.simps) (simp add: mkdir_def)

lemma create_subdirs_Returned:
  "create_subdirs [''INPUT'', ''RESTART''] rd w = (Returned u, w') \<Longrightarrow>
     filesys w' (rd @ [''INPUT'']) = Some Dir \<and> filesys w' (rd @ [''RESTART'']) = Some Dir"
  by (auto simp: Let_def split: prod.splits outcome.splits
           dest: makedirs_Returned makedirs_mono)

lemma create_directory_structure_Returned:
  "create_directory_structure h rd act w = (Returned u, w') \<Longrightarrow>
     isdir (filesys w') (rd @ [''INPUT'']) \<and> isdir (filesys w') (rd @ [''RESTART''])"
  unfolding create_directory_structure_def isdir_def
  by (auto simp del: create_subdirs.simps split: if_splits prod.splits outcome.splits
           dest: create_subdirs_Returned)

lemma not_prefix_butlast: "rd \<noteq> [] \<Longrightarrow> \<not> prefix rd (butlast rd)"
  by (metis append_butlast_last_id prefix_length_le length_append_singleton not_less_eq_eq order_refl)

lemma create_subdirs_fresh:
  assumes "rd \<noteq> []" "filesys w (butlast rd) = Some Dir" "filesys w rd = None"
    "filesys w (rd @ [''INPUT'']) = None" "filesys w (rd @ [''RESTART'']) = None"
  shows "\<exists>w'. create_subdirs [''INPUT'', ''RESTART''] rd w = (Returned (), w') \<and>
     filesys w' = (filesys w)(rd \<mapsto> Dir, rd @ [''INPUT''] \<mapsto> Dir, rd @ [''RESTART''] \<mapsto> Dir)"
proof -
  let ?f = "filesys w"
  have 1: "makedirs ?f rd = (Returned (), ?f(rd \<mapsto> Dir))"
    using assms by (simp add: makedirs_parent_dir)
  have 2: "makedirs ?f (rd @ [''INPUT'']) = (Returned (), ?f(rd \<mapsto> Dir, rd @ [''INPUT''] \<mapsto> Dir))"
    using assms 1 by (subst makedirs.simps) (simp add: mkdir_def)
  have 3: "makedirs (?f(rd \<mapsto> Dir, rd @ [''INPUT''] \<mapsto> Dir)) (rd @ [''RESTART'']) =
      (Returned (), ?f(rd \<mapsto> Dir, rd @ [''INPUT''] \<mapsto> Dir, rd @ [''RESTART''] \<mapsto> Dir))"
    using assms by (intro makedirs_parent_dir) simp_all
  show ?thesis
    using 2 3 by (simp add: Let_def)
qed

subsection \<open>Run directory provisioning\<close>

text \<open>
  C3. For a conflict policy outside delete, rename and quit,
  \<^verbatim>\<open>create_directory_structure\<close> raises \<^verbatim>\<open>ValueError\<close> whatever the path, the
  file system and the \<^verbatim>\<open>handle_existing\<close> in use: nothing is read or changed.
\<close>

theorem create_directory_structure_bad_policy:
  "exist_act \<notin> {''delete'', ''rename'', ''quit''} \<Longrightarrow>
   create_directory_structure h run_directory exist_act w =
     (Raised (ValueError (''Bad argument: '' @ exist_act)), w)"
  by (simp add: create_directory_structure_def)

theorem create_directory_structure_bad_policy_witness:
  "''frobnicate'' \<notin> {''delete'', ''rename'', ''quit''} \<and>
   create_directory_structure (handle_existing ''_old'') [''run''] ''frobnicate'' example_world =
     (Raised (ValueError ''Bad argument: frobnicate''), example_world)"
  using create_directory_structure_bad_policy
    [of "''frobnicate''" "handle_existing ''_old''" "[''run'']" example_world]
  by simp

text \<open>
  C4. Under the quit policy, when the run directory exists the call ends the process
  with exit status 1 (the outcome \<open>Exit 1\<close>, not a raised error) after logging one
  critical record; the file system is the one it started from.
\<close>

theorem create_directory_structure_quit:
  "filesys w run_directory = Some Dir \<Longrightarrow>
   create_directory_structure h run_directory ''quit'' w =
     (Exit 1, w\<lparr>log := log w @ [Critical ''User chose quit option when creating directory'']\<rparr>) \<and>
   filesys (snd (create_directory_structure h run_directory ''quit'' w)) = filesys w"
  by (simp add: create_directory_structure_def isdir_def)

theorem create_directory_structure_quit_witness:
  "filesys example_world [''run''] = Some Dir \<and>
   fst (create_directory_structure (handle_existing ''_old'') [''run''] ''quit'' example_world) = Exit 1 \<and>
   filesys (snd (create_directory_structure (handle_existing ''_old'') [''run''] ''quit'' example_world)) =
     filesys example_world"
  using create_directory_structure_quit
    [of example_world "[''run'']" "handle_existing ''_old''"]
  by (simp add: example_world_def)

text \<open>
  C5. Under the delete policy, with \<^verbatim>\<open>handle_existing\<close> as the spec describes it, an
  existing run directory (inside an existing directory) ends up holding exactly the
  empty directories INPUT and RESTART; every path outside it is as before. And
  whatever the policy and \<^verbatim>\<open>handle_existing\<close>, the call returns normally only when
  both subdirectories exist: a failed \<^verbatim>\<open>os.makedirs\<close> is raised.
\<close>

theorem create_directory_structure_delete:
  assumes "filesys w rd = Some Dir" and "rd \<noteq> []" and "filesys w (butlast rd) = Some Dir"
  shows "(\<exists>w'. create_directory_structure (handle_existing sfx) rd ''delete'' w = (Returned (), w') \<and>
           (\<forall>q. filesys w' q =
              (if q = rd \<or> q = rd @ [''INPUT''] \<or> q = rd @ [''RESTART''] then Some Dir
               else if prefix rd q then None
               else filesys w q))) \<and>
         (\<forall>h act w0 w1. create_directory_structure h rd act w0 = (Returned (), w1) \<longrightarrow>
            isdir (filesys w1) (rd @ [''INPUT'']) \<and> isdir (filesys w1) (rd @ [''RESTART'']))"
proof -
  let ?w1 = "w\<lparr>filesys := rmtree (filesys w) rd\<rparr>"
  have h: "handle_existing sfx (filesys w) rd ''delete'' = (Returned (), rmtree (filesys w) rd)"
    using assms by (simp add: handle_existing_def)
  have "\<exists>w'. create_subdirs [''INPUT'', ''RESTART''] rd ?w1 = (Returned (), w') \<and>
     filesys w' = (filesys ?w1)(rd \<mapsto> Dir, rd @ [''INPUT''] \<mapsto> Dir, rd @ [''RESTART''] \<mapsto> Dir)"
    using assms by (intro create_subdirs_fresh) (simp_all add: rmtree_def not_prefix_butlast)
  then obtain w' where w': "create_subdirs [''INPUT'', ''RESTART''] rd ?w1 = (Returned (), w')"
    "filesys w' = (filesys ?w1)(rd \<mapsto> Dir, rd @ [''INPUT''] \<mapsto> Dir, rd @ [''RESTART''] \<mapsto> Dir)"
    by blast
  have "create_directory_structure (handle_existing sfx) rd ''delete'' w = (Returned (), w')"
    using h w'(1) by (simp add: create_directory_structure_def del: create_subdirs.simps)
  moreover have "\<forall>q. filesys w' q =
              (if q = rd \<or> q = rd @ [''INPUT''] \<or> q = rd @ [''RESTART''] then Some Dir
               else if prefix rd q then None
               else filesys w q)"
    using w'(2) by (simp add: rmtree_def)
  ultimately show ?thesis
    using create_directory_structure_Returned by blast
qed

theorem create_directory_structure_delete_witness:
  "\<exists>w'. create_directory_structure (handle_existing ''_old'') [''run''] ''delete'' example_world =
          (Returned (), w') \<and>
        filesys w' [''run''] = Some Dir \<and>
        filesys w' [''run'', ''INPUT''] = Some Dir \<and>
        filesys w' [''run'', ''RESTART''] = Some Dir \<and>
        filesys w' [''run'', ''old.nc''] = None"
proof -
  have "filesys example_world [''run''] = Some Dir" "[''run''] \<noteq> []"
    "filesys example_world (butlast [''run'']) = Some Dir"
    by (simp_all add: example_world_def)
  from create_directory_structure_delete [OF this, of "''_old''"]
  obtain w' where
    r: "create_directory_structure (handle_existing ''_old'') [''run''] ''delete'' example_world =
          (Returned (), w')"
    and f: "\<forall>q. filesys w' q =
              (if q = [''run''] \<or> q = [''run''] @ [''INPUT''] \<or> q = [''run''] @ [''RESTART'']
               then Some Dir
               else if prefix [''run''] q then None
               else filesys example_world q)"
    by blast
  from f have "filesys w' [''run''] = Some Dir" "filesys w' [''run'', ''INPUT''] = Some Dir"
    "filesys w' [''run'', ''RESTART''] = Some Dir" "filesys w' [''run'', ''old.nc''] = None"
    by simp_all
  with r show ?thesis by blast
qed

subsection \<open>What a run leaves unchanged\<close>

lemma create_subdirs_frame:
  "spawned (snd (create_subdirs xs rd w)) = spawned w \<and>
   submitted (snd (create_subdirs xs rd w)) = submitted w"
  by (induction xs arbitrary: w) (auto simp: Let_def split: prod.splits outcome.splits)

lemma create_directory_structure_frame:
  "spawned (snd (create_directory_structure h rd act w)) = spawned w \<and>
   submitted (snd (create_directory_structure h rd act w)) = submitted w"
  unfolding create_directory_structure_def
  by (auto simp del: create_subdirs.simps simp: create_subdirs_frame
           split: prod.splits outcome.splits)

lemma on_filesys_frame:
  "spawned (snd (on_filesys f w)) = spawned w \<and> submitted (snd (on_filesys f w)) = submitted w \<and>
   log (snd (on_filesys f w)) = log w"
  by (simp add: on_filesys_def split: prod.splits)

lemma stage_categories_frame:
  "spawned (snd (stage_categories c self rd cats w)) = spawned w \<and>
   submitted (snd (stage_categories c self rd cats w)) = submitted w"
proof (induction cats arbitrary: w)
  case Nil
  show ?case by simp
next
  case (Cons cat cats)
  obtain oc w1 where r: "on_filesys (\<lambda>f. stage_files c f rd (config_files (config self) cat) True) w = (oc, w1)"
    by force
  have f: "spawned w1 = spawned w \<and> submitted w1 = submitted w"
    using on_filesys_frame[of "\<lambda>f. stage_files c f rd (config_files (config self) cat) True" w] r
    by simp
  show ?case
    using r f Cons.IH[of w1] by (cases oc) simp_all
qed

lemma update_cycle_dependent_flags [simp]:
  "dry_run (update_cycle_dependent self other) = dry_run self"
  "batch_script_name (update_cycle_dependent self other) = batch_script_name self"
  by (simp_all add: update_cycle_dependent_def)

lemma run_frame_dry:
  assumes "dry_run self"
  shows "spawned (snd (snd (run c self w))) = spawned w \<and>
         submitted (snd (snd (run c self w))) = submitted w"
proof -
  let ?rd = "run_dir (config self)"
  obtain oc1 w1 where p: "create_directory_structure (handle_existing_fn c) ?rd ''delete'' w = (oc1, w1)"
    by force
  have f1: "spawned w1 = spawned w \<and> submitted w1 = submitted w"
    using create_directory_structure_frame[of "handle_existing_fn c" ?rd "''delete''" w] p by simp
  show ?thesis
  proof (cases "define_boundary_files c self")
    case (Inl e)
    with p f1 show ?thesis
      by (cases oc1) (simp_all add: run_def)
  next
    case (Inr bf)
    let ?self1 = "update_cycle_dependent self bf"
    obtain oc2 w2 where s: "stage_categories c ?self1 ?rd [''static'', ''cycle-dependent''] w1 = (oc2, w2)"
      by force
    have f2: "spawned w2 = spawned w \<and> submitted w2 = submitted w"
      using stage_categories_frame[of c ?self1 ?rd "[''static'', ''cycle-dependent'']" w1] s f1 by simp
    show ?thesis
      using p f1 Inr s f2 assms
      by (cases oc1; cases oc2)
         (simp_all add: run_def Let_def del: stage_categories.simps
            split: option.splits sum.splits)
  qed
qed

lemma run_dry_log:
  assumes "dry_run self" and "run c self w = (Returned (), self', w')"
  shows "\<exists>boundary_files w1 w2.
      define_boundary_files c self = Inr boundary_files \<and>
      self' = update_cycle_dependent self boundary_files \<and>
      create_directory_structure (handle_existing_fn c) (run_dir (config self)) ''delete'' w =
        (Returned (), w1) \<and>
      stage_categories c self' (run_dir (config self)) [''static'', ''cycle-dependent''] w1 =
        (Returned (), w2) \<and>
      filesys w' = filesys w2 \<and>
      (case batch_script_name self of
         Some name \<Rightarrow>
           (\<exists>script. batch_script c self' = Inr script \<and>
              log w' = log w2 @ [Info ''Batch Script:'', InfoScript script])
       | None \<Rightarrow>
           (\<exists>cmd. run_cmd c (experiment_config self')
                    (get_default (mpi_args (runtime_info (config self'))) []) = Inr cmd \<and>
              log w' = log w2 @
                [InfoRuntime (get_default (mpi_args (runtime_info (config self'))) [])
                   (runtime_info (config self')),
                 Info ''Would run: '', Info cmd]))"
  using assms unfolding run_def
  by (auto simp: Let_def simp del: stage_categories.simps
           split: prod.splits outcome.splits sum.splits option.splits if_splits)

subsection \<open>What a run does not depend on\<close>

lemma boundary_files_of_tile_subprocess [simp]:
  "boundary_files_of_tile (c\<lparr>subprocess_run := sp\<rparr>) t off tile hours d =
   boundary_files_of_tile c t off tile hours d"
  by (induction hours arbitrary: d) (auto simp: Let_def split: sum.splits)

lemma boundary_files_of_tiles_subprocess [simp]:
  "boundary_files_of_tiles (c\<lparr>subprocess_run := sp\<rparr>) t hrs tls d =
   boundary_files_of_tiles c t hrs tls d"
  by (induction c t hrs tls d rule: boundary_files_of_tiles.induct) (auto split: sum.splits)

lemma define_boundary_files_subprocess [simp]:
  "define_boundary_files (c\<lparr>subprocess_run := sp\<rparr>) self = define_boundary_files c self"
  by (simp add: define_boundary_files_def)

lemma stage_categories_subprocess [simp]:
  "stage_categories (c\<lparr>subprocess_run := sp\<rparr>) self rd cats w = stage_categories c self rd cats w"
  by (induction cats arbitrary: w) (auto split: prod.splits outcome.splits)

lemma batch_script_subprocess [simp]:
  "batch_script (c\<lparr>subprocess_run := sp\<rparr>) self = batch_script c self"
  by (simp add: batch_script_def Let_def split: sum.splits)

lemma run_direct_status:
  assumes "batch_script_name self = None" and "\<forall>cmd f. snd (sp cmd f) = snd (sp' cmd f)"
  shows "run (c\<lparr>subprocess_run := sp\<rparr>) self w = run (c\<lparr>subprocess_run := sp'\<rparr>) self w"
  using assms unfolding run_def
  by (auto simp: Let_def case_prod_beta simp del: stage_categories.simps
           split: prod.splits outcome.splits sum.splits option.splits)

lemma config_cong: "experiment_config s = experiment_config s' \<Longrightarrow> config s = config s'"
  by (simp add: config_def)

lemma define_boundary_files_cong:
  "experiment_config s = experiment_config s' \<Longrightarrow>
   define_boundary_files c s = define_boundary_files c s'"
  by (simp add: define_boundary_files_def boundary_hours_def config_def)

lemma update_cycle_dependent_cong:
  "experiment_config s = experiment_config s' \<Longrightarrow>
   experiment_config (update_cycle_dependent s bf) = experiment_config (update_cycle_dependent s' bf)"
  by (simp add: update_cycle_dependent_def config_def)

lemma stage_categories_cong:
  "experiment_config s = experiment_config s' \<Longrightarrow>
   stage_categories c s rd cats w = stage_categories c s' rd cats w"
  by (induction cats arbitrary: w) (auto simp: config_def split: prod.splits outcome.splits)

lemma mpi_env_variables_cong:
  "experiment_config s = experiment_config s' \<Longrightarrow>
   mpi_env_variables s d = mpi_env_variables s' d"
  by (simp add: mpi_env_variables_def config_def)

lemma batch_script_cong:
  assumes "experiment_config s = experiment_config s'"
  shows "batch_script c s = batch_script c s'"
  unfolding batch_script_def
  by (simp only: assms config_cong [OF assms] mpi_env_variables_cong [OF assms])

lemma batch_script_Inr:
  "scheduler_batch_script c (experiment_config self) = Inr ds \<Longrightarrow>
   run_cmd c (experiment_config self) (get_default (mpi_args (runtime_info (config self))) []) =
     Inr cmd \<Longrightarrow>
   batch_script c self = Inr (ds @ [mpi_env_variables self [CHR 0x0A], cmd])"
  by (simp add: batch_script_def Let_def)

lemma run_direct_outcome:
  assumes "batch_script_name self = None"
  shows "fst (run c self w) = fst (run c (self\<lparr>dry_run := True\<rparr>) w)"
proof -
  let ?s = "self\<lparr>dry_run := True\<rparr>"
  have e: "experiment_config self = experiment_config ?s" by simp
  have u: "experiment_config (update_cycle_dependent self bf) =
           experiment_config (update_cycle_dependent ?s bf)" for bf
    by (rule update_cycle_dependent_cong[OF e])
  show ?thesis
    using assms unfolding run_def
    by (auto simp: Let_def case_prod_beta config_cong[OF e, symmetric]
                   define_boundary_files_cong[OF e, symmetric]
                   stage_categories_cong[OF u, symmetric] u[symmetric]
                   config_cong[OF u, symmetric]
             simp del: stage_categories.simps
             split: prod.splits outcome.splits sum.splits option.splits)
qed

lemma run_modes_same_command:
  assumes "run c (self\<lparr>batch_script_name := None, dry_run := False\<rparr>) w = (Returned (), s1, w1)"
    and "scheduler_batch_script c (experiment_config s1) = Inr ds"
  shows "\<exists>cmd s2 w2.
          spawned w1 = spawned w @ [cmd] \<and>
          run c (self\<lparr>batch_script_name := Some name, dry_run := True\<rparr>) w =
            (Returned (), s2, w2) \<and>
          experiment_config s2 = experiment_config s1 \<and>
          batch_script c s2 = Inr (ds @ [mpi_env_variables s2 [CHR 0x0A], cmd]) \<and>
          last (log w2) = InfoScript (ds @ [mpi_env_variables s2 [CHR 0x0A], cmd])"
proof -
  let ?a = "self\<lparr>batch_script_name := None, dry_run := False\<rparr>"
  let ?b = "self\<lparr>batch_script_name := Some name, dry_run := True\<rparr>"
  let ?rd = "run_dir (config ?a)"
  have e: "experiment_config ?b = experiment_config ?a" by simp
  have u: "experiment_config (update_cycle_dependent ?b bf) =
           experiment_config (update_cycle_dependent ?a bf)" for bf
    by (rule update_cycle_dependent_cong[OF e])
  obtain oc1 w1' where p: "create_directory_structure (handle_existing_fn c) ?rd ''delete'' w = (oc1, w1')"
    by force
  have f1: "spawned w1' = spawned w"
    using create_directory_structure_frame[of "handle_existing_fn c" ?rd "''delete''" w] p by simp
  from assms(1) p have oc1: "oc1 = Returned ()"
    by (cases oc1) (simp_all add: run_def Let_def)
  from assms(1) p oc1 obtain bf where bf: "define_boundary_files c ?a = Inr bf"
    by (cases "define_boundary_files c ?a") (simp_all add: run_def Let_def)
  let ?a1 = "update_cycle_dependent ?a bf"
  let ?b1 = "update_cycle_dependent ?b bf"
  let ?args = "get_default (mpi_args (runtime_info (config ?a1))) []"
  obtain oc2 w2' where st: "stage_categories c ?a1 ?rd [''static'', ''cycle-dependent''] w1' = (oc2, w2')"
    by force
  have f2: "spawned w2' = spawned w"
    using stage_categories_frame[of c ?a1 ?rd "[''static'', ''cycle-dependent'']" w1'] st f1 by simp
  from assms(1) p oc1 bf st have oc2: "oc2 = Returned ()"
    by (cases oc2) (simp_all add: run_def Let_def del: stage_categories.simps)
  from assms(1) p oc1 bf st oc2 obtain cmd where
    cmd: "run_cmd c (experiment_config ?a1) ?args = Inr cmd"
    by (cases "run_cmd c (experiment_config ?a1) ?args")
       (simp_all add: run_def Let_def del: stage_categories.simps)
  have s1: "s1 = ?a1" and w1: "spawned w1 = spawned w2' @ [cmd]"
    using assms(1) p oc1 bf st oc2 cmd
    by (auto simp: run_def Let_def case_prod_beta simp del: stage_categories.simps)
  have c1: "config ?b1 = config ?a1"
    by (rule config_cong[OF u])
  have bs: "batch_script c ?b1 = Inr (ds @ [mpi_env_variables ?b1 [CHR 0x0A], cmd])"
    using assms(2) cmd s1 u c1 by (intro batch_script_Inr) simp_all
  have rb: "run c ?b w = (Returned (), ?b1,
      w2'\<lparr>log := log w2' @
        [Info ''Batch Script:'', InfoScript (ds @ [mpi_env_variables ?b1 [CHR 0x0A], cmd])]\<rparr>)"
    using p oc1 bf st oc2 bs
    by (simp add: run_def Let_def config_cong[OF e] define_boundary_files_cong[OF e]
                  stage_categories_cong[OF u] del: stage_categories.simps)
  have "experiment_config ?b1 = experiment_config s1"
    using u s1 by simp
  moreover have "last (log (w2'\<lparr>log := log w2' @
      [Info ''Batch Script:'', InfoScript (ds @ [mpi_env_variables ?b1 [CHR 0x0A], cmd])]\<rparr>)) =
      InfoScript (ds @ [mpi_env_variables ?b1 [CHR 0x0A], cmd])"
    by simp
  moreover have "spawned w1 = spawned w @ [cmd]"
    using w1 f2 by simp
  ultimately show ?thesis
    using rb bs by blast
qed

subsection \<open>Dry runs, exit statuses and the run command\<close>

text \<open>
  C1 (as amended). With \<^verbatim>\<open>dry_run\<close> set, \<^verbatim>\<open>run\<close> starts no subprocess and submits
  no batch job, and writes no batch script: when it returns, the configuration holds
  the boundary files, the file system is the one left by
  \<^verbatim>\<open>create_directory_structure(run_directory, "delete")\<close> followed by the staging of
  the static and cycle-dependent files, both of which it performs, and the log is the
  one of those two steps followed, in batch mode, by \<^verbatim>\<open>Batch Script:\<close> and the rendered
  script, and in direct mode by the runtime arguments, \<^verbatim>\<open>Would run:\<close> and the run
  command.
\<close>

theorem run_dry_run_effects:
  assumes "dry_run self"
  shows "spawned (snd (snd (run c self w))) = spawned w \<and>
         submitted (snd (snd (run c self w))) = submitted w \<and>
         (\<forall>self' w'. run c self w = (Returned (), self', w') \<longrightarrow>
            (\<exists>boundary_files w1 w2.
               define_boundary_files c self = Inr boundary_files \<and>
               self' = update_cycle_dependent self boundary_files \<and>
               create_directory_structure (handle_existing_fn c) (run_dir (config self)) ''delete'' w =
                 (Returned (), w1) \<and>
               stage_categories c self' (run_dir (config self)) [''static'', ''cycle-dependent''] w1 =
                 (Returned (), w2) \<and>
               filesys w' = filesys w2 \<and>
               (case batch_script_name self of
                  Some name \<Rightarrow>
                    (\<exists>script. batch_script c self' = Inr script \<and>
                       log w' = log w2 @ [Info ''Batch Script:'', InfoScript script])
                | None \<Rightarrow>
                    (\<exists>cmd. run_cmd c (experiment_config self')
                             (get_default (mpi_args (runtime_info (config self'))) []) = Inr cmd \<and>
                       log w' = log w2 @
                         [InfoRuntime (get_default (mpi_args (runtime_info (config self'))) [])
                            (runtime_info (config self')),
                          Info ''Would run: '', Info cmd]))))"
  using run_frame_dry[OF assms] run_dry_log[OF assms] by blast

theorem run_dry_run_effects_witness:
  "dry_run (example_driver\<lparr>dry_run := True\<rparr>) \<and>
   spawned (snd (snd (run example_collab (example_driver\<lparr>dry_run := True\<rparr>) example_world))) =
     spawned example_world \<and>
   submitted (snd (snd (run example_collab (example_driver\<lparr>dry_run := True\<rparr>) example_world))) =
     submitted example_world \<and>
   (\<exists>entries. log (snd (snd (run example_collab (example_driver\<lparr>dry_run := True\<rparr>) example_world))) =
      entries @ [InfoRuntime [SStr ''-n'', SInt 4] \<lparr>mpi_args = Some [SStr ''-n'', SInt 4], threads = None\<rparr>,
                 Info ''Would run: '', Info ''srun -n 4 fv3.exe''])"
proof -
  let ?d = "example_driver\<lparr>dry_run := True\<rparr>"
  let ?r = "run example_collab ?d example_world"
  have d: "dry_run ?d" by simp
  note t = run_dry_run_effects [OF d, of example_collab example_world]
  have "fst ?r = Returned ()"
    by code_simp
  then have r: "?r = (Returned (), fst (snd ?r), snd (snd ?r))"
    by (metis prod.collapse)
  have b: "batch_script_name ?d = None"
    by (simp add: example_driver_def)
  note t3 = t [THEN conjunct2, THEN conjunct2, THEN spec, THEN spec, THEN mp, OF r,
      unfolded b option.case]
  have n: "str_int 4 = ''4''"
    by (simp add: str_int_def str_nat.simps digit_char_def)
  from t3 have e: "\<exists>entries. log (snd (snd ?r)) = entries @
      [InfoRuntime [SStr ''-n'', SInt 4] \<lparr>mpi_args = Some [SStr ''-n'', SInt 4], threads = None\<rparr>,
       Info ''Would run: '', Info ''srun -n 4 fv3.exe'']"
  proof (elim exE conjE)
    fix bf :: "(string, string) dict" and w2 :: world and cmd :: string
    assume s: "fst (snd ?r) = update_cycle_dependent ?d bf"
      and c: "run_cmd example_collab (experiment_config (fst (snd ?r)))
              (get_default (mpi_args (runtime_info (config (fst (snd ?r))))) []) = Inr cmd"
      and l: "log (snd (snd ?r)) = log w2 @
              [InfoRuntime (get_default (mpi_args (runtime_info (config (fst (snd ?r))))) [])
                 (runtime_info (config (fst (snd ?r)))),
               Info ''Would run: '', Info cmd]"
    have ri: "runtime_info (config (fst (snd ?r))) =
        \<lparr>mpi_args = Some [SStr ''-n'', SInt 4], threads = None\<rparr>"
      unfolding s by (simp add: update_cycle_dependent_def config_def example_driver_def)
    from c have cmd: "cmd = ''srun -n 4 fv3.exe''"
      unfolding ri by (simp add: example_collab_def get_default_def n)
    from l have "log (snd (snd ?r)) = log w2 @
        [InfoRuntime [SStr ''-n'', SInt 4] \<lparr>mpi_args = Some [SStr ''-n'', SInt 4], threads = None\<rparr>,
         Info ''Would run: '', Info ''srun -n 4 fv3.exe'']"
      unfolding ri cmd by (simp add: get_default_def)
    then show ?thesis
      by (rule exI [of _ "log w2"])
  qed
  have s1: "spawned (snd (snd ?r)) = spawned example_world"
    by (rule t [THEN conjunct1])
  have s2: "submitted (snd (snd ?r)) = submitted example_world"
    by (rule t [THEN conjunct2, THEN conjunct1])
  show ?thesis
    by (rule conjI [OF d conjI [OF s1 conjI [OF s2 e]]])
qed

text \<open>
  C1 as stated fails: a dry run of the example removes the file in the existing run
  directory and creates INPUT there; where no run directory exists it creates one.
\<close>

theorem run_dry_run_counterexample:
  "dry_run (example_driver\<lparr>dry_run := True\<rparr>) \<and>
   filesys example_world [''run'', ''old.nc''] = Some (File ''data'') \<and>
   filesys example_world [''run'', ''INPUT''] = None \<and>
   fst (run example_collab (example_driver\<lparr>dry_run := True\<rparr>) example_world) = Returned () \<and>
   filesys (snd (snd (run example_collab (example_driver\<lparr>dry_run := True\<rparr>) example_world))) [''run'', ''old.nc''] = None \<and>
   filesys (snd (snd (run example_collab (example_driver\<lparr>dry_run := True\<rparr>) example_world))) [''run'', ''INPUT''] = Some Dir \<and>
   filesys fresh_world [''run''] = None \<and>
   filesys (snd (snd (run example_collab (example_driver\<lparr>dry_run := True\<rparr>) fresh_world))) [''run''] = Some Dir"
  by code_simp

text \<open>
  C2 (as amended). In direct mode the exit status of the subprocess never becomes a
  raised exception and is not kept: two processes that treat the files alike and
  differ in exit status give the same result of \<^verbatim>\<open>run\<close> (return value, driver and
  world), and the outcome of \<^verbatim>\<open>run\<close> is the one of the dry run, which starts no
  process.
\<close>

theorem run_direct_exit_status:
  assumes "batch_script_name self = None" and "\<forall>cmd f. snd (sp cmd f) = snd (sp' cmd f)"
  shows "run (c\<lparr>subprocess_run := sp\<rparr>) self w = run (c\<lparr>subprocess_run := sp'\<rparr>) self w \<and>
         fst (run (c\<lparr>subprocess_run := sp\<rparr>) self w) =
           fst (run (c\<lparr>subprocess_run := sp\<rparr>) (self\<lparr>dry_run := True\<rparr>) w)"
  using run_direct_status [OF assms, of c w]
    run_direct_outcome [OF assms(1), of "c\<lparr>subprocess_run := sp\<rparr>" w]
  by (simp only: simp_thms)

theorem run_direct_exit_status_witness:
  "batch_script_name example_driver = None \<and>
   fst (run (example_collab\<lparr>subprocess_run := exits_with 1\<rparr>) example_driver example_world) =
   fst (run (example_collab\<lparr>subprocess_run := exits_with 0\<rparr>) example_driver example_world)"
proof -
  have b: "batch_script_name example_driver = None"
    by (simp add: example_driver_def)
  have e: "\<forall>cmd f. snd (exits_with 1 cmd f) = snd (exits_with 0 cmd f)"
    by (simp add: exits_with_def)
  from run_direct_exit_status [OF b e, of example_collab example_world] b
  show ?thesis by simp
qed

text \<open>
  C2 as stated fails: the example's direct run starts the command, and its whole result
  is the same whether the process exits with status 1 or 0; the return value is
  \<^verbatim>\<open>None\<close> in both cases.
\<close>

theorem run_direct_exit_status_counterexample:
  "fst (exits_with 1 ''srun -n 4 fv3.exe'' (filesys example_world)) \<noteq>
     fst (exits_with 0 ''srun -n 4 fv3.exe'' (filesys example_world)) \<and>
   spawned (snd (snd (run (example_collab\<lparr>subprocess_run := exits_with 1\<rparr>)
      example_driver example_world))) = [''srun -n 4 fv3.exe''] \<and>
   fst (run (example_collab\<lparr>subprocess_run := exits_with 1\<rparr>) example_driver example_world) =
     Returned () \<and>
   run (example_collab\<lparr>subprocess_run := exits_with 1\<rparr>) example_driver example_world =
     run (example_collab\<lparr>subprocess_run := exits_with 0\<rparr>) example_driver example_world"
proof -
  have b: "batch_script_name example_driver = None"
    by (simp add: example_driver_def)
  have e: "\<forall>cmd f. snd (exits_with 1 cmd f) = snd (exits_with 0 cmd f)"
    by (simp add: exits_with_def)
  have 1: "fst (exits_with 1 ''srun -n 4 fv3.exe'' (filesys example_world)) \<noteq>
     fst (exits_with 0 ''srun -n 4 fv3.exe'' (filesys example_world))"
    by (simp add: exits_with_def)
  have 2: "spawned (snd (snd (run (example_collab\<lparr>subprocess_run := exits_with 1\<rparr>)
      example_driver example_world))) = [''srun -n 4 fv3.exe'']"
    by code_simp
  have 3: "fst (run (example_collab\<lparr>subprocess_run := exits_with 1\<rparr>) example_driver example_world) =
     Returned ()"
    by code_simp
  show ?thesis
    using 1 2 3 run_direct_status [OF b e, of example_collab example_world] by simp
qed

text \<open>
  C7. For one configuration and one starting world: when the direct run returns, it
  has handed exactly one command to \<^verbatim>\<open>subprocess.run\<close>; and, the scheduler giving its
  directive lines, the batch-mode run (here the dry run, which logs the script) returns
  too, with the same configuration, and the script it renders is the directives, the
  environment line, and that same command as its last line.
\<close>

theorem run_command_same_in_both_modes:
  assumes "run c (self\<lparr>batch_script_name := None, dry_run := False\<rparr>) w = (Returned (), s1, w1)"
    and "scheduler_batch_script c (experiment_config s1) = Inr directives"
  shows "\<exists>cmd s2 w2.
          spawned w1 = spawned w @ [cmd] \<and>
          run c (self\<lparr>batch_script_name := Some name, dry_run := True\<rparr>) w =
            (Returned (), s2, w2) \<and>
          experiment_config s2 = experiment_config s1 \<and>
          batch_script c s2 = Inr (directives @ [mpi_env_variables s2 [CHR 0x0A], cmd]) \<and>
          last (log w2) = InfoScript (directives @ [mpi_env_variables s2 [CHR 0x0A], cmd])"
  using run_modes_same_command [OF assms] .

theorem run_command_same_in_both_modes_witness:
  "\<exists>cmd s2 w2.
     spawned (snd (snd (run example_collab
        (example_driver\<lparr>batch_script_name := None, dry_run := False\<rparr>) example_world))) = [cmd] \<and>
     run example_collab (example_driver\<lparr>batch_script_name := Some ''job.sh'', dry_run := True\<rparr>)
       example_world = (Returned (), s2, w2) \<and>
     last (log w2) =
       InfoScript ([''#!/bin/bash'', ''#SBATCH --account=me''] @ [mpi_env_variables s2 [CHR 0x0A], cmd])"
proof -
  let ?r = "run example_collab (example_driver\<lparr>batch_script_name := None, dry_run := False\<rparr>)
              example_world"
  have "fst ?r = Returned ()"
    by code_simp
  then have r: "?r = (Returned (), fst (snd ?r), snd (snd ?r))"
    by (metis prod.collapse)
  have d: "scheduler_batch_script example_collab (experiment_config (fst (snd ?r))) =
      Inr [''#!/bin/bash'', ''#SBATCH --account=me'']"
    by (simp add: example_collab_def)
  have w: "spawned example_world = []"
    by (simp add: example_world_def)
  from run_command_same_in_both_modes [OF r d, of "''job.sh''"] w
  show ?thesis by auto
qed

subsection \<open>The orog tasks\<close>

lemma entries_str_nine:
  assumes "map_of d ''mtnres'' = Some v1" "map_of d ''lonb'' = Some v2"
    "map_of d ''latb'' = Some v3" "map_of d ''jcap'' = Some v4" "map_of d ''nr'' = Some v5"
    "map_of d ''nf1'' = Some v6" "map_of d ''nf2'' = Some v7" "map_of d ''efac'' = Some v8"
    "map_of d ''blat'' = Some v9"
  shows "entries_str d ordered_entries = Inr (map py_str [v1, v2, v3, v4, v5, v6, v7, v8, v9])"
  using assms by (simp add: ordered_entries_def)

lemma str_items_strings:
  "str_items i (map (\<lambda>s. Scalar (SStr s)) ss) = Inr ss"
  by (induction ss arbitrary: i) simp_all

lemma py_join_strings:
  "py_join sep (map (\<lambda>s. Scalar (SStr s)) ss) = Inr (join sep ss)"
  by (simp add: py_join_def str_items_strings)

lemma input_config_path_cfg [simp]:
  "input_config_path (self\<lparr>orog_config := cfg\<rparr>) = input_config_path self"
  by (simp add: input_config_path_def)

text \<open>
  C6. With the nine entries present in \<^verbatim>\<open>old_line1_items\<close> (and the other settings
  strings where present), the text that the task's action writes is the nine values in
  the order mtnres, lonb, latb, jcap, nr, nf1, nf2, efac, blat, separated by single
  spaces, then a newline, then the remaining lines; without \<^verbatim>\<open>old_line1_items\<close> the
  text is the remaining lines alone.
\<close>

theorem input_config_file_first_line:
  assumes "map_of d ''mtnres'' = Some v1" "map_of d ''lonb'' = Some v2"
    "map_of d ''latb'' = Some v3" "map_of d ''jcap'' = Some v4" "map_of d ''nr'' = Some v5"
    "map_of d ''nf1'' = Some v6" "map_of d ''nf2'' = Some v7" "map_of d ''efac'' = Some v8"
    "map_of d ''blat'' = Some v9"
  shows
    "(let rest = join [CHR 0x0A]
                   ([g] @ (case orogf of None \<Rightarrow> [] | Some s \<Rightarrow> [s]) @
                    [get_default msk ''.false.'', get_default mrg ''none''])
      in task_action (input_config_file wr
           (self\<lparr>orog_config :=
              \<lparr>cfg_grid_file = g, old_line1_items = Some d, orog_file = map_option SStr orogf,
               mask = map_option SStr msk, merge = map_option SStr mrg\<rparr>\<rparr>)) fs =
           wr fs (input_config_path self)
             (Inr (join '' '' (map py_str [v1, v2, v3, v4, v5, v6, v7, v8, v9]) @ [CHR 0x0A] @ rest)) \<and>
         task_action (input_config_file wr
           (self\<lparr>orog_config :=
              \<lparr>cfg_grid_file = g, old_line1_items = None, orog_file = map_option SStr orogf,
               mask = map_option SStr msk, merge = map_option SStr mrg\<rparr>\<rparr>)) fs =
           wr fs (input_config_path self) (Inr rest))"
proof -
  have ne: "d \<noteq> []" using assms(1) by auto
  let ?others = "[g] @ (case orogf of None \<Rightarrow> [] | Some s \<Rightarrow> [s]) @
                    [get_default msk ''.false.'', get_default mrg ''none'']"
  let ?line1 = "join '' '' (map py_str [v1, v2, v3, v4, v5, v6, v7, v8, v9])"
  have c0: "filter (\<lambda>i. i \<noteq> Scalar SNone)
        [Scalar (SStr g), Scalar (get_default (map_option SStr orogf) SNone),
         Scalar (get_default (map_option SStr msk) (SStr ''.false.'')),
         Scalar (get_default (map_option SStr mrg) (SStr ''none''))] =
      map (\<lambda>s. Scalar (SStr s)) ?others"
    by (cases orogf; cases msk; cases mrg) (simp_all add: get_default_def)
  have j1: "py_join [CHR 0x0A] (map (\<lambda>s. Scalar (SStr s)) (?line1 # ?others)) =
      Inr (?line1 @ [CHR 0x0A] @ join [CHR 0x0A] ?others)"
    unfolding py_join_strings by (cases orogf) simp_all
  have j0: "py_join [CHR 0x0A] (map (\<lambda>s. Scalar (SStr s)) ?others) = Inr (join [CHR 0x0A] ?others)"
    by (rule py_join_strings)
  show ?thesis
    using ne entries_str_nine[OF assms] c0 j0 j1
    by (simp add: input_config_file_def input_config_file_body_def Let_def)
qed

theorem input_config_file_first_line_witness:
  "snd (task_action (input_config_file example_writable example_orog) Map.empty) [''run'', ''INPS''] =
     Some (File ''1 0 0 0 0 0 0 0 0\<newline>/data/grid.nc\<newline>orog.nc\<newline>.false.\<newline>none'') \<and>
   snd (task_action (input_config_file example_writable
          (example_orog\<lparr>orog_config := (orog_config example_orog)\<lparr>old_line1_items := None\<rparr>\<rparr>))
          Map.empty) [''run'', ''INPS''] =
     Some (File ''/data/grid.nc\<newline>orog.nc\<newline>.false.\<newline>none'')"
proof -
  let ?d = "[(''blat'', SInt 0), (''efac'', SInt 0), (''jcap'', SInt 0), (''latb'', SInt 0),
            (''lonb'', SInt 0), (''mtnres'', SInt 1), (''nf1'', SInt 0), (''nf2'', SInt 0),
            (''nr'', SInt 0)]"
  have d: "map_of ?d ''mtnres'' = Some (SInt 1)" "map_of ?d ''lonb'' = Some (SInt 0)"
    "map_of ?d ''latb'' = Some (SInt 0)" "map_of ?d ''jcap'' = Some (SInt 0)"
    "map_of ?d ''nr'' = Some (SInt 0)" "map_of ?d ''nf1'' = Some (SInt 0)"
    "map_of ?d ''nf2'' = Some (SInt 0)" "map_of ?d ''efac'' = Some (SInt 0)"
    "map_of ?d ''blat'' = Some (SInt 0)"
    by simp_all
  have k: "fs_key (input_config_path example_orog) = [''run'', ''INPS'']"
    by (simp add: input_config_path_def joinpath_def Path_def fs_key_def example_orog_def)
  have n: "str_int 0 = ''0''" "str_int 1 = ''1''"
    by (simp_all add: str_int_def str_nat.simps digit_char_def)
  have e1: "example_orog\<lparr>orog_config :=
      \<lparr>cfg_grid_file = ''/data/grid.nc'', old_line1_items = Some ?d,
       orog_file = map_option SStr (Some ''orog.nc''), mask = map_option SStr None,
       merge = map_option SStr None\<rparr>\<rparr> = example_orog"
    by (simp add: example_orog_def)
  have e0: "example_orog\<lparr>orog_config :=
      \<lparr>cfg_grid_file = ''/data/grid.nc'', old_line1_items = None,
       orog_file = map_option SStr (Some ''orog.nc''), mask = map_option SStr None,
       merge = map_option SStr None\<rparr>\<rparr> =
      example_orog\<lparr>orog_config := (orog_config example_orog)\<lparr>old_line1_items := None\<rparr>\<rparr>"
    by (simp add: example_orog_def)
  note t = input_config_file_first_line [OF d, of "''/data/grid.nc''" "Some ''orog.nc''" None None
      example_writable example_orog Map.empty, unfolded Let_def e1 e0]
  have w1: "example_writable Map.empty (input_config_path example_orog)
      (Inr (join '' '' (map py_str [SInt 1, SInt 0, SInt 0, SInt 0, SInt 0, SInt 0, SInt 0, SInt 0,
              SInt 0]) @ [CHR 0x0A] @
            join [CHR 0x0A] ([''/data/grid.nc''] @ (case Some ''orog.nc'' of None \<Rightarrow> [] | Some s \<Rightarrow> [s]) @
              [get_default None ''.false.'', get_default None ''none'']))) =
      (Returned (), [[''run'', ''INPS''] \<mapsto>
         File ''1 0 0 0 0 0 0 0 0\<newline>/data/grid.nc\<newline>orog.nc\<newline>.false.\<newline>none''])"
    by (simp add: example_writable_def k n get_default_def)
  have w0: "example_writable Map.empty (input_config_path example_orog)
      (Inr (join [CHR 0x0A] ([''/data/grid.nc''] @ (case Some ''orog.nc'' of None \<Rightarrow> [] | Some s \<Rightarrow> [s]) @
              [get_default None ''.false.'', get_default None ''none'']))) =
      (Returned (), [[''run'', ''INPS''] \<mapsto>
         File ''/data/grid.nc\<newline>orog.nc\<newline>.false.\<newline>none''])"
    by (simp add: example_writable_def k get_default_def)
  from t show ?thesis
    unfolding w1 w0 by simp
qed

lemma join_slash_none:
  "join ''/'' xs = ''none'' \<longleftrightarrow> xs = [''none'']"
proof (cases xs)
  case Nil
  then show ?thesis by simp
next
  case (Cons x ys)
  show ?thesis
  proof (cases ys)
    case Nil
    with Cons show ?thesis by simp
  next
    case (Cons y zs)
    have "CHR ''/'' \<in> set (join ''/'' (x # y # zs))" by simp
    moreover have "CHR ''/'' \<notin> set ''none''" by simp
    ultimately have "join ''/'' (x # y # zs) \<noteq> ''none''" by metis
    with Cons \<open>xs = x # ys\<close> show ?thesis by simp
  qed
qed

lemma root_Path_cases: "root (Path s) = [] \<or> root (Path s) = ''/'' \<or> root (Path s) = ''//''"
  by (simp add: Path_def)

lemma str_path_none_iff:
  "str_path (Path s) = ''none'' \<longleftrightarrow> root (Path s) = [] \<and> tail (Path s) = [''none'']"
proof -
  consider "root (Path s) = []" | "root (Path s) = ''/''" | "root (Path s) = ''//''"
    using root_Path_cases by blast
  then show ?thesis
  proof cases
    case 1
    then show ?thesis
      using join_slash_none[of "tail (Path s)"] by (auto simp: str_path_def)
  next
    case 2
    then show ?thesis by (simp add: str_path_def)
  next
    case 3
    then show ?thesis by (simp add: str_path_def)
  qed
qed

lemma grid_file_none_value:
  "cfg_grid_file (orog_config self) = ''none'' \<Longrightarrow> snd (grid_file self) = None"
  by (simp add: grid_file_def Path_def str_path_def)

text \<open>
  C10 (as amended). \<^verbatim>\<open>grid_file\<close> yields its task name and no asset exactly when the
  configured value, read as a path, is the relative path \<^verbatim>\<open>none\<close>: no root, and
  \<^verbatim>\<open>none\<close> as its only component once empty components and single dots are dropped.
  The string \<^verbatim>\<open>none\<close> is such a value. For every other value it yields the asset over
  that path whose readiness is \<^verbatim>\<open>is_file\<close> of the path.
\<close>

theorem grid_file_asset:
  "grid_file self =
     (taskname self ''Input grid file'',
      if root (Path (cfg_grid_file (orog_config self))) = [] \<and>
         tail (Path (cfg_grid_file (orog_config self))) = [''none'']
      then None
      else Some \<lparr>ref = Path (cfg_grid_file (orog_config self)),
                 ready = (\<lambda>fs. is_file fs (Path (cfg_grid_file (orog_config self))))\<rparr>) \<and>
   (cfg_grid_file (orog_config self) = ''none'' \<longrightarrow> snd (grid_file self) = None)"
  using str_path_none_iff[of "cfg_grid_file (orog_config self)"] grid_file_none_value[of self]
  by (simp add: grid_file_def Let_def)

theorem grid_file_asset_witness:
  "cfg_grid_file (orog_config (example_orog\<lparr>orog_config :=
      (orog_config example_orog)\<lparr>cfg_grid_file := ''none''\<rparr>\<rparr>)) = ''none'' \<and>
   snd (grid_file (example_orog\<lparr>orog_config :=
      (orog_config example_orog)\<lparr>cfg_grid_file := ''none''\<rparr>\<rparr>)) = None \<and>
   map_option ref (snd (grid_file example_orog)) = Some \<lparr>root = ''/'', tail = [''data'', ''grid.nc'']\<rparr>"
proof -
  let ?x = "example_orog\<lparr>orog_config := (orog_config example_orog)\<lparr>cfg_grid_file := ''none''\<rparr>\<rparr>"
  have a: "cfg_grid_file (orog_config ?x) = ''none''"
    by simp
  with grid_file_asset [of ?x] have b: "snd (grid_file ?x) = None"
    by blast
  have g: "cfg_grid_file (orog_config example_orog) = ''/data/grid.nc''"
    by (simp add: example_orog_def)
  have p: "Path ''/data/grid.nc'' = \<lparr>root = ''/'', tail = [''data'', ''grid.nc'']\<rparr>"
    by (simp add: Path_def)
  from grid_file_asset [of example_orog]
  have "snd (grid_file example_orog) =
      Some \<lparr>ref = Path ''/data/grid.nc'', ready = (\<lambda>fs. is_file fs (Path ''/data/grid.nc''))\<rparr>"
    unfolding g p by simp
  then have c: "map_option ref (snd (grid_file example_orog)) =
      Some \<lparr>root = ''/'', tail = [''data'', ''grid.nc'']\<rparr>"
    by (simp add: p)
  from a b c show ?thesis
    by blast
qed

text \<open>
  C10 as stated fails: the value \<^verbatim>\<open>./none\<close> is not the string \<^verbatim>\<open>none\<close>, and yields no
  asset.
\<close>

theorem grid_file_asset_counterexample:
  "cfg_grid_file (orog_config (example_orog\<lparr>orog_config :=
      (orog_config example_orog)\<lparr>cfg_grid_file := ''./none''\<rparr>\<rparr>)) \<noteq> ''none'' \<and>
   snd (grid_file (example_orog\<lparr>orog_config :=
      (orog_config example_orog)\<lparr>cfg_grid_file := ''./none''\<rparr>\<rparr>)) = None"
  by (simp add: grid_file_def Path_def str_path_def)

subsection \<open>Task dispatch\<close>

lemma execute_unknown:
  "ChgresCube env cfg cycle batch dry w = Inr obj \<Longrightarrow> obj task = None \<Longrightarrow>
   execute env task cycle cfg batch dry graph_file w = (Raised (AttributeError task), w)"
  by (simp add: execute_def)

lemma execute_not_callable:
  "ChgresCube env cfg cycle batch dry w = Inr obj \<Longrightarrow> obj task = Some NotCallable \<Longrightarrow>
   execute env task cycle cfg batch dry graph_file w = (Raised (TypeError task), w)"
  by (simp add: execute_def)

lemma execute_called:
  "ChgresCube env cfg cycle batch dry w = Inr obj \<Longrightarrow>
   obj task = Some (Task f) \<or> obj task = Some (Callable f) \<Longrightarrow>
   execute env task cycle cfg batch dry graph_file w = write_graph_and_return env graph_file (f w)"
  by (auto simp: execute_def)

text \<open>
  C8 (as amended). Once the driver object is constructed: a name that is no attribute
  of it makes \<^verbatim>\<open>execute\<close> raise \<^verbatim>\<open>AttributeError\<close> with the world untouched, and a
  name of an attribute that cannot be called without arguments makes it raise
  \<^verbatim>\<open>TypeError\<close> likewise; any attribute that can be called without arguments, task or
  not, is called, and when the call returns \<^verbatim>\<open>execute\<close> returns \<^verbatim>\<open>True\<close> (with a
  graph file given, once that is written).
\<close>

theorem execute_dispatch:
  assumes "ChgresCube env cfg cycle batch dry w = Inr obj"
  shows "(obj task = None \<longrightarrow>
            execute env task cycle cfg batch dry graph_file w = (Raised (AttributeError task), w)) \<and>
         (obj task = Some NotCallable \<longrightarrow>
            execute env task cycle cfg batch dry graph_file w = (Raised (TypeError task), w)) \<and>
         (\<forall>f w1. (obj task = Some (Task f) \<or> obj task = Some (Callable f)) \<and>
                  f w = (Returned (), w1) \<longrightarrow>
            execute env task cycle cfg batch dry None w = (Returned True, w1) \<and>
            (\<forall>p w2. write_to env p (graph env w1 @ [CHR 0x0A]) w1 = (Returned (), w2) \<longrightarrow>
               execute env task cycle cfg batch dry (Some p) w = (Returned True, w2)))"
  using execute_unknown [OF assms] execute_not_callable [OF assms] execute_called [OF assms]
  by (auto simp: write_graph_and_return_def)

theorem execute_dispatch_witness:
  "execute example_api ''frobnicate'' 0 None False False None fresh_world =
     (Raised (AttributeError ''frobnicate''), fresh_world) \<and>
   execute example_api ''rundir'' 0 None False False None fresh_world =
     (Raised (TypeError ''rundir''), fresh_world) \<and>
   fst (execute example_api ''provisioned_rundir'' 0 None False False None fresh_world) =
     Returned True \<and>
   filesys (snd (execute example_api ''provisioned_rundir'' 0 None False False None fresh_world))
     [''run''] = Some Dir"
proof -
  have c: "ChgresCube example_api None 0 False False fresh_world = Inr example_object"
    by (simp add: example_api_def example_constructor_def)
  have t: "example_task fresh_world =
      (Returned (), fresh_world\<lparr>filesys := (filesys fresh_world)([''run''] \<mapsto> Dir)\<rparr>)"
    by (simp add: example_task_def on_filesys_def fresh_world_def makedirs.simps mkdir_def)
  have o: "example_object ''frobnicate'' = None" "example_object ''rundir'' = Some NotCallable"
    "example_object ''provisioned_rundir'' = Some (Task example_task)"
    by (simp_all add: example_object_def)
  from execute_dispatch [OF c, of "''frobnicate''" None]
    execute_dispatch [OF c, of "''rundir''" None]
    execute_dispatch [OF c, of "''provisioned_rundir''" None] o t
  show ?thesis
    by simp
qed

text \<open>
  C8 as stated fails: \<^verbatim>\<open>__repr__\<close> is not a task method, and \<^verbatim>\<open>execute\<close> on that name
  returns \<^verbatim>\<open>True\<close> with nothing done.
\<close>

theorem execute_dispatch_counterexample:
  "\<not> is_task (example_object ''__repr__'') \<and>
   execute example_api ''__repr__'' 0 None False False None fresh_world =
     (Returned True, fresh_world)"
  by (simp add: execute_def example_api_def example_constructor_def example_object_def
        unchanged_def write_graph_and_return_def)

end
